theory Spec2Isabelle
  imports Main "HOL-Library.Sublist"
begin

section \<open>Input data\<close>

text \<open>
  \<^verbatim>\<open>interface DepsFile { file: string; content: string; }\<close>
  (the same declaration opens \<^verbatim>\<open>src/index.ts\<close> and \<^verbatim>\<open>src/index.cts\<close>).
  A JavaScript string is a sequence of code units; it is modelled as a \<^typ>\<open>string\<close>,
  which agrees with it on the ASCII texts the checks compare against. The field
  \<^verbatim>\<open>file\<close> is written \<open>file'\<close>, since \<open>file\<close> is a keyword of Isabelle.
\<close>

record DepsFile =
  file' :: string
  content :: string

text \<open>The extension tables, lines 10 to 21 of both source files.\<close>

definition jsesm_exts :: "string list" where
  "jsesm_exts = [''.js'', ''.mjs'']"

definition jscjs_exts :: "string list" where
  "jscjs_exts = [''.cjs'']"

definition tsesm_exts :: "string list" where
  "tsesm_exts = [''.ts'', ''.mts'']"

definition tscjs_exts :: "string list" where
  "tscjs_exts = [''.cts'']"

definition jsx_exts :: "string list" where
  "jsx_exts = [''.jsx'', ''.tsx'']"

definition all_exts :: "string list" where
  "all_exts = jscjs_exts @ jsesm_exts @ tscjs_exts @ tsesm_exts @ jsx_exts"

section \<open>The suffix of a path\<close>

text \<open>
  Both files call \<^verbatim>\<open>path.extname(dep.file)\<close> of Node's \<^verbatim>\<open>node:path\<close>. That function
  belongs to the Node runtime, not to this repository; what follows transcribes the
  algorithm of its POSIX flavour: one scan of the path from its last character to its
  first, over the five variables \<^verbatim>\<open>startDot\<close>, \<^verbatim>\<open>startPart\<close>, \<^verbatim>\<open>end\<close>,
  \<^verbatim>\<open>matchedSlash\<close> and \<^verbatim>\<open>preDotState\<close>, where \<open>-1\<close> stands for "not seen yet".
\<close>

record extname_state =
  startDot :: int
  startPart :: int
  endPos :: int
  matchedSlash :: bool
  preDotState :: int

definition extname_init :: extname_state where
  "extname_init =
     \<lparr>startDot = -1, startPart = 0, endPos = -1, matchedSlash = True, preDotState = 0\<rparr>"

text \<open>
  \<open>extname_scan p k s\<close> runs the iterations \<open>i = k - 1, \<dots>, 0\<close> of
  \<^verbatim>\<open>for (let i = path.length - 1; i >= 0; --i)\<close>; the \<^verbatim>\<open>break\<close> at a path
  separator returns at once.
\<close>

fun extname_scan :: "string \<Rightarrow> nat \<Rightarrow> extname_state \<Rightarrow> extname_state" where
  "extname_scan p 0 s = s"
| "extname_scan p (Suc i) s =
     (if p ! i = CHR ''/'' then
        (if \<not> matchedSlash s then s\<lparr>startPart := int i + 1\<rparr>
         else extname_scan p i s)
      else
        (let s1 = (if endPos s = -1 then s\<lparr>matchedSlash := False, endPos := int i + 1\<rparr>
                   else s);
             s2 = (if p ! i = CHR ''.'' then
                     (if startDot s1 = -1 then s1\<lparr>startDot := int i\<rparr>
                      else if preDotState s1 \<noteq> 1 then s1\<lparr>preDotState := 1\<rparr>
                      else s1)
                   else if startDot s1 \<noteq> -1 then s1\<lparr>preDotState := -1\<rparr>
                   else s1)
         in extname_scan p i s2))"

definition extname :: "string \<Rightarrow> string" where
  "extname p =
     (let s = extname_scan p (length p) extname_init in
      if startDot s = -1 \<or> endPos s = -1 \<or> preDotState s = 0 \<or>
         (preDotState s = 1 \<and> startDot s = endPos s - 1 \<and> startDot s = startPart s + 1)
      then []
      else take (nat (endPos s) - nat (startDot s)) (drop (nat (startDot s)) p))"

section \<open>The extension check\<close>

text \<open>
  \<^verbatim>\<open>checkExtGroup\<close> of \<^verbatim>\<open>src/index.cts\<close> (lines 88 to 113) returns six flags.
  \<^verbatim>\<open>new Set(xs).has(i)\<close> is membership in the table, \<^verbatim>\<open>exts.every(f)\<close> is
  \<^const>\<open>list_all\<close>.
\<close>

record ExtGroup =
  isNone :: bool
  isJsx :: bool
  isCjs :: bool
  isBoth :: bool
  isJs :: bool
  isTs :: bool

definition has :: "string list \<Rightarrow> string \<Rightarrow> bool" where
  "has tbl i = (i \<in> set tbl)"

definition checkExtGroup :: "DepsFile list \<Rightarrow> ExtGroup" where
  "checkExtGroup deps =
     (let exts = map (\<lambda>dep. extname (file' dep)) deps;
          isCjs' = (list_all (has jscjs_exts) exts \<or> list_all (has tscjs_exts) exts);
          isJsx' = list_all (has jsx_exts) exts;
          isJs' = list_all (has jsesm_exts) exts;
          isTs' = list_all (has tsesm_exts) exts;
          isBoth' = (isJs' \<and> isTs');
          isNone' = (\<not> list_all (has all_exts) exts)
      in \<lparr>isNone = isNone', isJsx = isJsx', isCjs = isCjs', isBoth = isBoth',
          isJs = isJs', isTs = isTs'\<rparr>)"

section \<open>Effects: the console, exceptions, process exit\<close>

text \<open>
  The functions print through \<^verbatim>\<open>console.warn\<close> and \<^verbatim>\<open>console.error\<close>, and
  \<^verbatim>\<open>console.timeEnd(label)\<close> prints a timing line (its duration is not modelled;
  \<^verbatim>\<open>console.time\<close> prints nothing). The console is the list of lines printed so far,
  passed in and returned. A call ends in one of three ways: it returns a value, it throws,
  or \<^verbatim>\<open>process.exit(n)\<close> ends the process.
\<close>

datatype console_line = ConsoleWarn string | ConsoleError string | ConsoleTimeEnd string

type_synonym console = "console_line list"

text \<open>
  A thrown JavaScript value: \<open>truthy\<close> is what \<^verbatim>\<open>if (err)\<close> tests, \<open>toString\<close> is what
  the template \<^verbatim>\<open>${error}\<close> prints.
\<close>

datatype thrown = Thrown (truthy: bool) (toString: string)

datatype 'a outcome = Return 'a | Throw thrown | Exit nat

section \<open>Syntax trees\<close>

text \<open>
  \<^verbatim>\<open>ts.createSourceFile\<close> and the node type \<^verbatim>\<open>ts.Node\<close> belong to the TypeScript
  compiler, not to this repository. A node is modelled with exactly what \<^verbatim>\<open>walk\<close>
  reads of it: its \<^verbatim>\<open>kind\<close> (the \<^verbatim>\<open>ts.isXxx\<close> guards compare it), its
  \<^verbatim>\<open>modifiers\<close> (\<open>None\<close> is \<^verbatim>\<open>undefined\<close>), its \<^verbatim>\<open>expression\<close> and
  \<^verbatim>\<open>arguments\<close> (read on call expressions), the \<^verbatim>\<open>text\<close> of an identifier
  (\<open>idText\<close>), the source span \<^verbatim>\<open>node.getText(sourceFile)\<close>, and the children that
  \<^verbatim>\<open>ts.forEachChild\<close> visits, in order. The parser itself is a parameter
  \<open>createSourceFile\<close> of the functions below: given the file name and the text it
  returns a tree or throws.
\<close>

datatype SyntaxKind =
    ImportDeclaration | ImportEqualsDeclaration | ExportDeclaration | ExportSpecifier
  | ExportAssignment | VariableStatement | FunctionDeclaration | InterfaceDeclaration
  | TypeAliasDeclaration | EnumDeclaration | ClassDeclaration | CallExpression
  | PropertyAccessExpression | Identifier | ExportKeyword | SourceFile
  | OtherKind string

datatype Node =
  Node (kind: SyntaxKind) (modifiers: "Node list option") (expression: "Node option")
       (arguments: "Node list") (idText: string) (getText: string) (children: "Node list")

type_synonym parser = "string \<Rightarrow> string \<Rightarrow> thrown + Node"

definition isImportDeclaration :: "Node \<Rightarrow> bool" where
  "isImportDeclaration node = (kind node = ImportDeclaration)"

definition isImportEqualsDeclaration :: "Node \<Rightarrow> bool" where
  "isImportEqualsDeclaration node = (kind node = ImportEqualsDeclaration)"

definition isExportDeclaration :: "Node \<Rightarrow> bool" where
  "isExportDeclaration node = (kind node = ExportDeclaration)"

definition isExportSpecifier :: "Node \<Rightarrow> bool" where
  "isExportSpecifier node = (kind node = ExportSpecifier)"

definition isExportAssignment :: "Node \<Rightarrow> bool" where
  "isExportAssignment node = (kind node = ExportAssignment)"

definition isVariableStatement :: "Node \<Rightarrow> bool" where
  "isVariableStatement node = (kind node = VariableStatement)"

definition isFunctionDeclaration :: "Node \<Rightarrow> bool" where
  "isFunctionDeclaration node = (kind node = FunctionDeclaration)"

definition isInterfaceDeclaration :: "Node \<Rightarrow> bool" where
  "isInterfaceDeclaration node = (kind node = InterfaceDeclaration)"

definition isTypeAliasDeclaration :: "Node \<Rightarrow> bool" where
  "isTypeAliasDeclaration node = (kind node = TypeAliasDeclaration)"

definition isEnumDeclaration :: "Node \<Rightarrow> bool" where
  "isEnumDeclaration node = (kind node = EnumDeclaration)"

definition isClassDeclaration :: "Node \<Rightarrow> bool" where
  "isClassDeclaration node = (kind node = ClassDeclaration)"

definition isCallExpression :: "Node \<Rightarrow> bool" where
  "isCallExpression node = (kind node = CallExpression)"

definition isPropertyAccessExpression :: "Node \<Rightarrow> bool" where
  "isPropertyAccessExpression node = (kind node = PropertyAccessExpression)"

definition isIdentifier :: "Node \<Rightarrow> bool" where
  "isIdentifier node = (kind node = Identifier)"

section \<open>The traversal\<close>

text \<open>
  \<^verbatim>\<open>walk\<close> sets two variables of the enclosing loop body, \<^verbatim>\<open>hasESMImports\<close> and
  \<^verbatim>\<open>hasCommonJS\<close>; here they are passed in and returned.
\<close>

record Markers =
  hasESMImports :: bool
  hasCommonJS :: bool

text \<open>
  The four \<^verbatim>\<open>if\<close> statements of \<^verbatim>\<open>walk\<close>, in the order of the source, before the
  recursive call. \<^verbatim>\<open>node.modifiers?.some(f)\<close> is \<^verbatim>\<open>undefined\<close>, hence false, when the
  node has no modifiers. On a call expression \<^verbatim>\<open>ts.isIdentifier(node.expression)\<close> reads
  \<^verbatim>\<open>node.expression.kind\<close>: a call node without an expression (the parser builds none)
  makes it throw a \<^verbatim>\<open>TypeError\<close>. \<^verbatim>\<open>text.startsWith(s)\<close> is \<^const>\<open>prefix\<close>.
\<close>

definition visit :: "Node \<Rightarrow> Markers \<Rightarrow> thrown + Markers" where
  "visit node m =
     (let m1 = (if isImportDeclaration node \<or> isImportEqualsDeclaration node \<or>
                   isExportDeclaration node \<or> isExportSpecifier node \<or>
                   isExportAssignment node
                then m\<lparr>hasESMImports := True\<rparr> else m);
          m2 = (if (isVariableStatement node \<or> isFunctionDeclaration node \<or>
                    isInterfaceDeclaration node \<or> isTypeAliasDeclaration node \<or>
                    isEnumDeclaration node \<or> isClassDeclaration node) \<and>
                   (case modifiers node of
                      None \<Rightarrow> False
                    | Some mods \<Rightarrow> list_ex (\<lambda>modifier. kind modifier = ExportKeyword) mods)
                then m1\<lparr>hasESMImports := True\<rparr> else m1);
          r3 = (if isCallExpression node then
                  (case expression node of
                     None \<Rightarrow>
                       Inl (Thrown True ''TypeError: Cannot read properties of undefined'')
                   | Some callee \<Rightarrow>
                       Inr (if isIdentifier callee \<and> idText callee = ''require'' \<and>
                               length (arguments node) > 0
                            then m2\<lparr>hasCommonJS := True\<rparr> else m2))
                else Inr m2)
      in case r3 of
           Inl err \<Rightarrow> Inl err
         | Inr m3 \<Rightarrow>
             Inr (if isPropertyAccessExpression node then
                    (let text = getText node in
                     if prefix ''module.exports'' text \<or> prefix ''exports.'' text
                     then m3\<lparr>hasCommonJS := True\<rparr> else m3)
                  else m3))"

text \<open>
  \<^verbatim>\<open>walk(node)\<close> visits the node, then \<^verbatim>\<open>ts.forEachChild(node, walk)\<close> walks its
  children from left to right (\<^verbatim>\<open>walk\<close> returns \<^verbatim>\<open>undefined\<close>, so the iteration
  never stops early). An exception leaves the traversal at once.
\<close>

fun walk :: "Node \<Rightarrow> Markers \<Rightarrow> thrown + Markers"
  and forEachChild_walk :: "Node list \<Rightarrow> Markers \<Rightarrow> thrown + Markers" where
  "walk (Node k ms e as t gt cs) m =
     (case visit (Node k ms e as t gt cs) m of
        Inl err \<Rightarrow> Inl err
      | Inr m' \<Rightarrow> forEachChild_walk cs m')"
| "forEachChild_walk [] m = Inr m"
| "forEachChild_walk (c # cs) m =
     (case walk c m of
        Inl err \<Rightarrow> Inl err
      | Inr m' \<Rightarrow> forEachChild_walk cs m')"

section \<open>The module-format check\<close>

text \<open>
  The loop of \<^verbatim>\<open>checkModuleFormat\<close> is the same text in \<^verbatim>\<open>src/index.cts\<close> (lines 125
  to 210) and in \<^verbatim>\<open>src/index.ts\<close> (lines 133 to 218). Its three counters are the
  variables \<^verbatim>\<open>_esmCount\<close>, \<^verbatim>\<open>cjsCount\<close> and \<^verbatim>\<open>unknowCount\<close>; a batch is a
  JavaScript array, so its length and the counters stay far below the range where a
  JavaScript number stops being exact, and \<^typ>\<open>nat\<close> models them. The object
  \<^verbatim>\<open>{ unknowCount, cjsCount }\<close> that the lenient variant returns is the record
  \<open>ModuleFormat\<close>; the counters of the loop are that record extended by
  \<open>esmCount\<close>.
\<close>

record ModuleFormat =
  unknowCount :: nat
  cjsCount :: nat

record Counters = ModuleFormat +
  esmCount :: nat

definition Counters_init :: Counters where
  "Counters_init = \<lparr>unknowCount = 0, cjsCount = 0, esmCount = 0\<rparr>"

text \<open>The body of the \<^verbatim>\<open>try\<close> block up to the end of the traversal.\<close>

definition traverse :: "parser \<Rightarrow> DepsFile \<Rightarrow> thrown + Markers" where
  "traverse createSourceFile dep =
     (case createSourceFile (file' dep) (content dep) of
        Inl err \<Rightarrow> Inl err
      | Inr sourceFile \<Rightarrow> walk sourceFile \<lparr>hasESMImports = False, hasCommonJS = False\<rparr>)"

text \<open>One iteration of \<^verbatim>\<open>for (const dep of deps)\<close>: the \<^verbatim>\<open>try\<close> and its \<^verbatim>\<open>catch\<close>.\<close>

definition checkModuleFormat_iter ::
  "parser \<Rightarrow> DepsFile \<Rightarrow> Counters \<times> console \<Rightarrow> Counters \<times> console" where
  "checkModuleFormat_iter createSourceFile dep st =
     (case st of (c, out) \<Rightarrow>
        (case traverse createSourceFile dep of
           Inr m \<Rightarrow>
             (if hasESMImports m \<and> \<not> hasCommonJS m then (c\<lparr>esmCount := esmCount c + 1\<rparr>, out)
              else if hasCommonJS m \<and> \<not> hasESMImports m then
                (c\<lparr>cjsCount := cjsCount c + 1\<rparr>, out)
              else if hasESMImports m \<and> hasCommonJS m then
                (c\<lparr>esmCount := esmCount c + 1\<rparr>, out)
              else (c, out))
         | Inl error \<Rightarrow>
             (c\<lparr>unknowCount := unknowCount c + 1\<rparr>,
              out @ [ConsoleError (''Error checking module format for '' @ file' dep @
                                   '' : \<newline> '' @ toString error)])))"

fun checkModuleFormat_loop ::
  "parser \<Rightarrow> DepsFile list \<Rightarrow> Counters \<times> console \<Rightarrow> Counters \<times> console" where
  "checkModuleFormat_loop createSourceFile [] st = st"
| "checkModuleFormat_loop createSourceFile (dep # deps) st =
     checkModuleFormat_loop createSourceFile deps
       (checkModuleFormat_iter createSourceFile dep st)"

text \<open>
  Every call starts from the initialisers \<^verbatim>\<open>let _esmCount = 0; let cjsCount = 0;
  let unknowCount = 0;\<close> and runs the loop over the whole batch.
\<close>

definition checkModuleFormat_counters ::
  "parser \<Rightarrow> DepsFile list \<Rightarrow> console \<Rightarrow> Counters \<times> console" where
  "checkModuleFormat_counters createSourceFile deps out =
     checkModuleFormat_loop createSourceFile deps (Counters_init, out)"

text \<open>
  \<^verbatim>\<open>checkModuleFormat\<close> of \<^verbatim>\<open>src/index.cts\<close>, the lenient variant: after the loop it
  returns \<^verbatim>\<open>{ unknowCount, cjsCount }\<close>.
\<close>

definition checkModuleFormat ::
  "parser \<Rightarrow> DepsFile list \<Rightarrow> console \<Rightarrow> ModuleFormat \<times> console" where
  "checkModuleFormat createSourceFile deps out =
     (case checkModuleFormat_counters createSourceFile deps out of
        (c, out') \<Rightarrow> (\<lparr>unknowCount = unknowCount c, cjsCount = cjsCount c\<rparr>, out'))"

text \<open>
  \<^verbatim>\<open>checkModuleFormat\<close> of \<^verbatim>\<open>src/index.ts\<close>, the strict variant: after the loop it
  tests \<^verbatim>\<open>unknowCount\<close>, then \<^verbatim>\<open>cjsCount\<close> (a number is truthy when it is not 0),
  and returns \<^verbatim>\<open>true\<close> when neither ended the process.
\<close>

definition checkModuleFormat_strict ::
  "parser \<Rightarrow> DepsFile list \<Rightarrow> console \<Rightarrow> bool outcome \<times> console" where
  "checkModuleFormat_strict createSourceFile deps out =
     (case checkModuleFormat_counters createSourceFile deps out of
        (c, out') \<Rightarrow>
          (if unknowCount c \<noteq> 0 then
             (Exit 1, out' @ [ConsoleWarn
                ''Unknown error when checking module types in the dependencies tree.''])
           else if cjsCount c \<noteq> 0 then
             (Exit 1, out' @ [ConsoleWarn
                ''The package detects CommonJs format  in the dependencies tree, currently unsupported.''])
           else (Return True, out')))"

section \<open>The strict extension check\<close>

text \<open>
  \<^verbatim>\<open>checkExtGroup\<close> of \<^verbatim>\<open>src/index.ts\<close> (lines 89 to 124) computes the flags
  \<^verbatim>\<open>isCjs\<close>, \<^verbatim>\<open>isJs\<close>, \<^verbatim>\<open>isTs\<close>, \<^verbatim>\<open>isBoth\<close> and \<^verbatim>\<open>isNone\<close> (no
  \<^verbatim>\<open>isJsx\<close>), then tests \<^verbatim>\<open>isNone\<close>, \<^verbatim>\<open>isCjs\<close> and \<^verbatim>\<open>isBoth\<close> in that order;
  each test that succeeds warns and ends the process with status 1.
\<close>

definition checkExtGroup_strict :: "DepsFile list \<Rightarrow> console \<Rightarrow> bool outcome \<times> console" where
  "checkExtGroup_strict deps out =
     (let exts = map (\<lambda>dep. extname (file' dep)) deps;
          isCjs' = (list_all (has jscjs_exts) exts \<or> list_all (has tscjs_exts) exts);
          isJs' = list_all (has jsesm_exts) exts;
          isTs' = list_all (has tsesm_exts) exts;
          isBoth' = (isJs' \<and> isTs');
          isNone' = (\<not> list_all (has all_exts) exts)
      in if isNone' then
           (Exit 1, out @ [ConsoleWarn
              ''Bundler detects none Javascript or Typescript extensions in the dependencies tree.''])
         else if isCjs' then
           (Exit 1, out @ [ConsoleWarn
              ''The package detects commonjs extensions (.cjd or .cts) in the dependencies tree, which is currently unsupported.''])
         else if isBoth' then
           (Exit 1, out @ [ConsoleWarn
              ''The package detects both Javascript or Typescript extensions in the dependencies tree, currently unsupported.''])
         else (Return True, out))"

text \<open>\<^verbatim>\<open>checkJSX\<close> of \<^verbatim>\<open>src/index.ts\<close>.\<close>

definition checkJSX :: "DepsFile list \<Rightarrow> bool" where
  "checkJSX deps =
     (let exts = map (\<lambda>dep. extname (file' dep)) deps in list_all (has jsx_exts) exts)"

text \<open>
  \<^verbatim>\<open>fileExtensionAndFormat\<close> of \<^verbatim>\<open>src/index.ts\<close>: the extension check, then the
  module-format check; a process that has exited runs nothing further.
\<close>

definition fileExtensionAndFormat ::
  "parser \<Rightarrow> DepsFile list \<Rightarrow> console \<Rightarrow> bool outcome \<times> console" where
  "fileExtensionAndFormat createSourceFile deps out =
     (case checkExtGroup_strict deps out of
        (Return ce, out1) \<Rightarrow>
          (case checkModuleFormat_strict createSourceFile deps out1 of
             (Return cm, out2) \<Rightarrow>
               (Return (ce \<and> cm), out2 @ [ConsoleTimeEnd ''checked extension and module''])
           | (Throw err, out2) \<Rightarrow> (Throw err, out2)
           | (Exit n, out2) \<Rightarrow> (Exit n, out2))
      | (Throw err, out1) \<Rightarrow> (Throw err, out1)
      | (Exit n, out1) \<Rightarrow> (Exit n, out1))"

section \<open>The type check and the lenient entry point\<close>

text \<open>
  \<^verbatim>\<open>checkTypes\<close> (lines 30 to 72 of both files) hands the batch to the TypeScript
  compiler. The compiler is a parameter: \<open>createProgram\<close> builds a program or throws; a
  program says whether it has a source file for a path and lists the three kinds of
  diagnostics of that file (a diagnostic is kept as its text);
  \<open>formatDiagnostics\<close> is \<^verbatim>\<open>ts.formatDiagnosticsWithColorAndContext\<close> with the
  host of the source, and \<open>relative\<close> is \<^verbatim>\<open>path.relative(process.cwd(), _)\<close>.
  \<^verbatim>\<open>noCheck\<close> is an optional compiler option: \<open>None\<close> is \<^verbatim>\<open>undefined\<close>.
\<close>

record CompilerOptions =
  noCheck :: "bool option"

record Program =
  getSourceFile :: "string \<Rightarrow> bool"
  getSyntacticDiagnostics :: "string \<Rightarrow> string list"
  getSemanticDiagnostics :: "string \<Rightarrow> string list"
  getDeclarationDiagnostics :: "string \<Rightarrow> string list"

record Compiler =
  createProgram :: "string list \<Rightarrow> CompilerOptions \<Rightarrow> thrown + Program"
  formatDiagnostics :: "string list \<Rightarrow> string"
  relative :: "string \<Rightarrow> string"

text \<open>
  The loop \<^verbatim>\<open>for (const filePath of filePaths)\<close>, with the variable \<^verbatim>\<open>_err\<close>: a
  missing source file ends the process inside the loop; diagnostics are printed and the
  loop goes on.
\<close>

fun checkTypes_loop ::
  "Compiler \<Rightarrow> Program \<Rightarrow> string list \<Rightarrow> bool \<Rightarrow> console \<Rightarrow> bool outcome \<times> console" where
  "checkTypes_loop ts program [] err out = (Return err, out)"
| "checkTypes_loop ts program (filePath # filePaths) err out =
     (if \<not> getSourceFile program filePath then
        (Exit 1, out @ [ConsoleError (''File not found: '' @ relative ts filePath)])
      else
        (let diagnostics = getSyntacticDiagnostics program filePath @
                           getSemanticDiagnostics program filePath @
                           getDeclarationDiagnostics program filePath
         in if length diagnostics > 0 then
              checkTypes_loop ts program filePaths True
                (out @ [ConsoleError (formatDiagnostics ts diagnostics)])
            else checkTypes_loop ts program filePaths err out))"

text \<open>\<^verbatim>\<open>checkTypes\<close> returns \<^verbatim>\<open>true\<close>, or \<^verbatim>\<open>undefined\<close> (\<open>None\<close>) when \<^verbatim>\<open>noCheck\<close> is set.\<close>

definition checkTypes ::
  "Compiler \<Rightarrow> DepsFile list \<Rightarrow> CompilerOptions \<Rightarrow> console \<Rightarrow> bool option outcome \<times> console" where
  "checkTypes ts deps compilerOptions out =
     (if noCheck compilerOptions \<noteq> Some True then
        (let filePaths = map file' deps in
         case createProgram ts filePaths compilerOptions of
           Inl err \<Rightarrow> (Throw err, out)
         | Inr program \<Rightarrow>
             (case checkTypes_loop ts program filePaths False out of
                (Return err, out') \<Rightarrow>
                  (if err then (Exit 1, out')
                   else (Return (Some True), out' @ [ConsoleTimeEnd ''types checked'']))
              | (Throw e, out') \<Rightarrow> (Throw e, out')
              | (Exit n, out') \<Rightarrow> (Exit n, out')))
      else (Return None, out))"

text \<open>
  \<^verbatim>\<open>check\<close> of \<^verbatim>\<open>src/index.cts\<close> (lines 232 to 242). An exception of
  \<^verbatim>\<open>checkTypes\<close> is replaced by a new error when the caught value is truthy and
  dropped otherwise; then the two classifications run and their results are merged:
  \<^verbatim>\<open>{ ...ce, ...cm }\<close> is the record of the six flags extended by the two counters.
\<close>

definition check_classify ::
  "parser \<Rightarrow> DepsFile list \<Rightarrow> console \<Rightarrow> ModuleFormat ExtGroup_scheme outcome \<times> console" where
  "check_classify createSourceFile deps out =
     (let ce = checkExtGroup deps in
      case checkModuleFormat createSourceFile deps out of
        (cm, out') \<Rightarrow> (Return (ExtGroup.extend ce cm), out'))"

definition check ::
  "Compiler \<Rightarrow> parser \<Rightarrow> DepsFile list \<Rightarrow> CompilerOptions \<Rightarrow> console
     \<Rightarrow> ModuleFormat ExtGroup_scheme outcome \<times> console" where
  "check ts createSourceFile deps compilerOptions out =
     (case checkTypes ts deps compilerOptions out of
        (Return _, out1) \<Rightarrow> check_classify createSourceFile deps out1
      | (Throw err, out1) \<Rightarrow>
          (if truthy err then (Throw (Thrown True ''Error: Error when type checking''), out1)
           else check_classify createSourceFile deps out1)
      | (Exit n, out1) \<Rightarrow> (Exit n, out1))"

section \<open>The outcome of one file\<close>

text \<open>
  Names for the four ways one iteration of the loop can go, read off the result of the
  \<^verbatim>\<open>try\<close> block: the block threw; the traversal set the ESM marker (alone or with
  the CommonJS marker); it set the CommonJS marker alone; it set neither.
\<close>

definition threw :: "parser \<Rightarrow> DepsFile \<Rightarrow> bool" where
  "threw createSourceFile dep =
     (case traverse createSourceFile dep of Inl err \<Rightarrow> True | Inr m \<Rightarrow> False)"

definition countedESM :: "parser \<Rightarrow> DepsFile \<Rightarrow> bool" where
  "countedESM createSourceFile dep =
     (case traverse createSourceFile dep of Inl err \<Rightarrow> False | Inr m \<Rightarrow> hasESMImports m)"

definition countedCJS :: "parser \<Rightarrow> DepsFile \<Rightarrow> bool" where
  "countedCJS createSourceFile dep =
     (case traverse createSourceFile dep of
        Inl err \<Rightarrow> False
      | Inr m \<Rightarrow> hasCommonJS m \<and> \<not> hasESMImports m)"

definition markerFree :: "parser \<Rightarrow> DepsFile \<Rightarrow> bool" where
  "markerFree createSourceFile dep =
     (case traverse createSourceFile dep of
        Inl err \<Rightarrow> False
      | Inr m \<Rightarrow> \<not> hasESMImports m \<and> \<not> hasCommonJS m)"

section \<open>Sample inputs\<close>

text \<open>
  The trees the TypeScript parser builds for four short texts, with the fields
  \<^verbatim>\<open>walk\<close> reads. A token has no children; an identifier carries its name.
\<close>

definition tokenNode :: "SyntaxKind \<Rightarrow> string \<Rightarrow> Node" where
  "tokenNode k src = Node k None None [] [] src []"

definition identNode :: "string \<Rightarrow> Node" where
  "identNode nm = Node Identifier None None [] nm nm []"

definition innerNode :: "SyntaxKind \<Rightarrow> string \<Rightarrow> Node list \<Rightarrow> Node" where
  "innerNode k src cs = Node k None None [] [] src cs"

text \<open>\<^verbatim>\<open>const a = 1;\<close>\<close>

definition tree_const :: Node where
  "tree_const =
     innerNode SourceFile ''const a = 1;''
       [innerNode VariableStatement ''const a = 1;''
          [innerNode (OtherKind ''VariableDeclarationList'') ''const a = 1''
             [innerNode (OtherKind ''VariableDeclaration'') ''a = 1''
                [identNode ''a'', tokenNode (OtherKind ''NumericLiteral'') ''1'']]],
        tokenNode (OtherKind ''EndOfFileToken'') []]"

text \<open>\<^verbatim>\<open>export const a = 1;\<close>\<close>

definition tree_export_const :: Node where
  "tree_export_const =
     innerNode SourceFile ''export const a = 1;''
       [Node VariableStatement (Some [tokenNode ExportKeyword ''export'']) None [] []
          ''export const a = 1;''
          [tokenNode ExportKeyword ''export'',
           innerNode (OtherKind ''VariableDeclarationList'') ''const a = 1''
             [innerNode (OtherKind ''VariableDeclaration'') ''a = 1''
                [identNode ''a'', tokenNode (OtherKind ''NumericLiteral'') ''1'']]],
        tokenNode (OtherKind ''EndOfFileToken'') []]"

text \<open>\<^verbatim>\<open>import x from "y"; require("z");\<close>\<close>

definition tree_import_require :: Node where
  "tree_import_require =
     innerNode SourceFile ''import x from \"y\"; require(\"z\");''
       [innerNode ImportDeclaration ''import x from \"y\";''
          [innerNode (OtherKind ''ImportClause'') ''x'' [identNode ''x''],
           tokenNode (OtherKind ''StringLiteral'') ''\"y\"''],
        innerNode (OtherKind ''ExpressionStatement'') ''require(\"z\");''
          [Node CallExpression None (Some (identNode ''require''))
             [tokenNode (OtherKind ''StringLiteral'') ''\"z\"''] [] ''require(\"z\")''
             [identNode ''require'', tokenNode (OtherKind ''StringLiteral'') ''\"z\"'']],
        tokenNode (OtherKind ''EndOfFileToken'') []]"

text \<open>\<^verbatim>\<open>module.exports = 1;\<close>\<close>

definition tree_module_exports :: Node where
  "tree_module_exports =
     innerNode SourceFile ''module.exports = 1;''
       [innerNode (OtherKind ''ExpressionStatement'') ''module.exports = 1;''
          [innerNode (OtherKind ''BinaryExpression'') ''module.exports = 1''
             [Node PropertyAccessExpression None (Some (identNode ''module'')) [] []
                ''module.exports'' [identNode ''module'', identNode ''exports''],
              tokenNode (OtherKind ''EqualsToken'') ''='',
              tokenNode (OtherKind ''NumericLiteral'') ''1'']],
        tokenNode (OtherKind ''EndOfFileToken'') []]"

text \<open>
  \<^verbatim>\<open>const = ;\<close>, a syntax error. The parser does not throw on it: it records a
  diagnostic, skips the \<^verbatim>\<open>=\<close> and returns a tree whose variable statement has
  an empty declaration list.
\<close>

definition tree_const_malformed :: Node where
  "tree_const_malformed =
     innerNode SourceFile ''const = ;''
       [innerNode VariableStatement ''const = ;''
          [innerNode (OtherKind ''VariableDeclarationList'') ''const ='' []],
        tokenNode (OtherKind ''EndOfFileToken'') []]"

text \<open>
  A well-formed text that a parser cannot handle under a bounded stack: the literal
  \<^verbatim>\<open>1\<close> inside 100000 pairs of parentheses. A recursive-descent parser descends
  once per parenthesis and the runtime throws a \<^verbatim>\<open>RangeError\<close> when the stack is
  exhausted.
\<close>

definition deeply_nested_text :: string where
  "deeply_nested_text = replicate 100000 (CHR ''('') @ ''1'' @ replicate 100000 (CHR '')'')"

text \<open>
  A parser to instantiate the theorems with: on these five texts it returns their trees.
  The theorems below apply it to these texts only; on any other text it returns a source
  file without statements, which is the tree of the empty text.
\<close>

definition createSourceFile_sample :: parser where
  "createSourceFile_sample fileName sourceText =
     (if sourceText = ''const a = 1;'' then Inr tree_const
      else if sourceText = ''export const a = 1;'' then Inr tree_export_const
      else if sourceText = ''import x from \"y\"; require(\"z\");'' then Inr tree_import_require
      else if sourceText = ''module.exports = 1;'' then Inr tree_module_exports
      else if sourceText = ''const = ;'' then Inr tree_const_malformed
      else Inr (innerNode SourceFile sourceText [tokenNode (OtherKind ''EndOfFileToken'') []]))"

section \<open>Auxiliary facts\<close>

lemmas is_kind_defs =
  isImportDeclaration_def isImportEqualsDeclaration_def isExportDeclaration_def
  isExportSpecifier_def isExportAssignment_def isVariableStatement_def
  isFunctionDeclaration_def isInterfaceDeclaration_def isTypeAliasDeclaration_def
  isEnumDeclaration_def isClassDeclaration_def isCallExpression_def
  isPropertyAccessExpression_def isIdentifier_def

lemmas sample_defs = createSourceFile_sample_def tree_const_def tree_export_const_def
  tree_import_require_def tree_module_exports_def tree_const_malformed_def tokenNode_def
  identNode_def innerNode_def

text \<open>The traversal of the sample texts.\<close>

lemma traverse_import_require:
  "traverse createSourceFile_sample \<lparr>file' = ''x.ts'', content = ''import x from \"y\"; require(\"z\");''\<rparr>
     = Inr \<lparr>hasESMImports = True, hasCommonJS = True\<rparr>"
  by (simp add: traverse_def sample_defs visit_def is_kind_defs)

lemma traverse_const:
  "traverse createSourceFile_sample \<lparr>file' = ''a.ts'', content = ''const a = 1;''\<rparr>
     = Inr \<lparr>hasESMImports = False, hasCommonJS = False\<rparr>"
  by (simp add: traverse_def sample_defs visit_def is_kind_defs)

text \<open>
  The counters after the loop are the counters before it plus, for each of the three
  buckets, the number of files of the batch that fall into it; the console does not
  enter.
\<close>

lemma iter_counters:
  "fst (checkModuleFormat_iter P dep (c, out)) =
     c\<lparr>unknowCount := unknowCount c + (if threw P dep then 1 else 0),
       cjsCount := cjsCount c + (if countedCJS P dep then 1 else 0),
       esmCount := esmCount c + (if countedESM P dep then 1 else 0)\<rparr>"
  by (cases "traverse P dep")
     (auto simp: checkModuleFormat_iter_def threw_def countedCJS_def countedESM_def)

lemma loop_counters:
  "fst (checkModuleFormat_loop P deps (c, out)) =
     c\<lparr>unknowCount := unknowCount c + length (filter (threw P) deps),
       cjsCount := cjsCount c + length (filter (countedCJS P) deps),
       esmCount := esmCount c + length (filter (countedESM P) deps)\<rparr>"
proof (induction deps arbitrary: c out)
  case Nil
  show ?case by simp
next
  case (Cons dep deps)
  obtain c' out' where st: "checkModuleFormat_iter P dep (c, out) = (c', out')"
    by (cases "checkModuleFormat_iter P dep (c, out)")
  have c': "c' = fst (checkModuleFormat_iter P dep (c, out))"
    by (simp add: st)
  show ?case
    by (simp add: st Cons.IH) (simp add: c' iter_counters)
qed

lemma outcome_partition:
  "length (filter (countedESM P) deps) + length (filter (countedCJS P) deps) +
   length (filter (threw P) deps) + length (filter (markerFree P) deps) = length deps"
proof (induction deps)
  case Nil
  show ?case by simp
next
  case (Cons dep deps)
  then show ?case
    by (cases "traverse P dep")
       (auto simp: threw_def countedCJS_def countedESM_def markerFree_def)
qed

lemma loop_append:
  "checkModuleFormat_loop P (xs @ ys) st = checkModuleFormat_loop P ys (checkModuleFormat_loop P xs st)"
  by (induction xs arbitrary: st) simp_all

lemma loop_console_mono:
  "set out \<subseteq> set (snd (checkModuleFormat_loop P deps (c, out)))"
proof (induction deps arbitrary: c out)
  case Nil
  show ?case by simp
next
  case (Cons dep deps)
  obtain c' out' where st: "checkModuleFormat_iter P dep (c, out) = (c', out')"
    by (cases "checkModuleFormat_iter P dep (c, out)")
  have "set out \<subseteq> set out'"
    using st by (auto simp: checkModuleFormat_iter_def split: sum.splits if_splits)
  also have "\<dots> \<subseteq> set (snd (checkModuleFormat_loop P deps (c', out')))"
    by (rule Cons.IH)
  finally show ?case by (simp add: st)
qed

text \<open>Membership in the extension tables.\<close>

lemmas ext_tables = jsesm_exts_def jscjs_exts_def tsesm_exts_def tscjs_exts_def jsx_exts_def
  all_exts_def

lemma has_iff: "has tbl i \<longleftrightarrow> i \<in> set tbl"
  by (simp add: has_def)

lemma every_ext:
  "list_all (has tbl) (map (\<lambda>dep. extname (file' dep)) deps) \<longleftrightarrow>
     (\<forall>d\<in>set deps. extname (file' d) \<in> set tbl)"
  by (simp add: list_all_iff has_iff)

lemma extname_samples:
  "extname ''a.ts'' = ''.ts''" "extname ''b.ts'' = ''.ts''" "extname ''a.js'' = ''.js''"
  "extname ''a.cjs'' = ''.cjs''" "extname ''a.txt'' = ''.txt''" "extname ''x.ts'' = ''.ts''"
  by (simp_all add: extname_def extname_init_def)

section \<open>The module-format analyzer\<close>

text \<open>
  C1. A file whose traversal ends with both markers set is counted as ESM: the iteration
  adds one to \<open>esmCount\<close> and leaves \<open>cjsCount\<close>, \<open>unknowCount\<close> and the console
  as they were; of the four outcomes of a file it has the first only.
\<close>

theorem both_markers_counted_esm:
  assumes "traverse createSourceFile dep = Inr m" and "hasESMImports m" and "hasCommonJS m"
  shows "checkModuleFormat_iter createSourceFile dep (c, out) =
           (c\<lparr>esmCount := esmCount c + 1\<rparr>, out) \<and>
         countedESM createSourceFile dep \<and> \<not> countedCJS createSourceFile dep \<and>
         \<not> threw createSourceFile dep \<and> \<not> markerFree createSourceFile dep"
  using assms
  by (simp add: checkModuleFormat_iter_def countedESM_def countedCJS_def threw_def
        markerFree_def)

theorem both_markers_counted_esm_witness:
  "checkModuleFormat_iter createSourceFile_sample
     \<lparr>file' = ''x.ts'', content = ''import x from \"y\"; require(\"z\");''\<rparr>
     (\<lparr>unknowCount = 0, cjsCount = 0, esmCount = 0\<rparr>, []) =
   (\<lparr>unknowCount = 0, cjsCount = 0, esmCount = 1\<rparr>, [])"
  using both_markers_counted_esm [OF traverse_import_require, of "\<lparr>unknowCount = 0, cjsCount = 0, esmCount = 0\<rparr>" "[]"]
  by simp

text \<open>
  C3. A file whose traversal ends with neither marker set changes nothing: the three
  counters and the console after the iteration are those before it; the file is
  marker-free, not thrown.
\<close>

theorem no_marker_counted_nowhere:
  assumes "traverse createSourceFile dep = Inr m" and "\<not> hasESMImports m" and "\<not> hasCommonJS m"
  shows "checkModuleFormat_iter createSourceFile dep (c, out) = (c, out) \<and>
         markerFree createSourceFile dep \<and> \<not> countedESM createSourceFile dep \<and>
         \<not> countedCJS createSourceFile dep \<and> \<not> threw createSourceFile dep"
  using assms
  by (simp add: checkModuleFormat_iter_def countedESM_def countedCJS_def threw_def
        markerFree_def)

theorem no_marker_counted_nowhere_witness:
  "checkModuleFormat_iter createSourceFile_sample
     \<lparr>file' = ''a.ts'', content = ''const a = 1;''\<rparr>
     (\<lparr>unknowCount = 0, cjsCount = 0, esmCount = 0\<rparr>, []) =
   (\<lparr>unknowCount = 0, cjsCount = 0, esmCount = 0\<rparr>, [])"
  using no_marker_counted_nowhere [OF traverse_const, of "\<lparr>unknowCount = 0, cjsCount = 0, esmCount = 0\<rparr>" "[]"]
  by simp

text \<open>
  C2, as stated, fails: for the batch of the single file \<^verbatim>\<open>const a = 1;\<close> the three
  counters add up to 0, not to the batch size 1.
\<close>

theorem counters_sum_counterexample:
  "\<not> (esmCount (fst (checkModuleFormat_counters createSourceFile_sample
               [\<lparr>file' = ''a.ts'', content = ''const a = 1;''\<rparr>] [])) +
       cjsCount (fst (checkModuleFormat_counters createSourceFile_sample
               [\<lparr>file' = ''a.ts'', content = ''const a = 1;''\<rparr>] [])) +
       unknowCount (fst (checkModuleFormat_counters createSourceFile_sample
               [\<lparr>file' = ''a.ts'', content = ''const a = 1;''\<rparr>] []))
       = length [\<lparr>file' = ''a.ts'', content = ''const a = 1;''\<rparr>])"
  by (simp add: checkModuleFormat_counters_def checkModuleFormat_iter_def traverse_const
        Counters_init_def)

text \<open>
  C2, amended. Every file has exactly one of four outcomes (counted as ESM, counted as
  CommonJS, thrown, marker-free); each counter is the number of files of the batch with
  its outcome; so the three counters plus the number of marker-free files make the batch
  size.
\<close>

theorem counters_partition_batch:
  "esmCount (fst (checkModuleFormat_counters P deps out)) = length (filter (countedESM P) deps) \<and>
   cjsCount (fst (checkModuleFormat_counters P deps out)) = length (filter (countedCJS P) deps) \<and>
   unknowCount (fst (checkModuleFormat_counters P deps out)) = length (filter (threw P) deps) \<and>
   esmCount (fst (checkModuleFormat_counters P deps out)) +
     cjsCount (fst (checkModuleFormat_counters P deps out)) +
     unknowCount (fst (checkModuleFormat_counters P deps out)) +
     length (filter (markerFree P) deps) = length deps \<and>
   length (filter id [countedESM P dep, countedCJS P dep, threw P dep, markerFree P dep]) = 1"
proof -
  have one: "length (filter id [countedESM P dep, countedCJS P dep, threw P dep, markerFree P dep]) = 1"
    by (cases "traverse P dep")
       (auto simp: threw_def countedCJS_def countedESM_def markerFree_def)
  show ?thesis
    using outcome_partition [of P deps] one
    by (simp add: checkModuleFormat_counters_def loop_counters Counters_init_def)
qed

theorem counters_partition_batch_witness:
  "fst (checkModuleFormat_counters createSourceFile_sample
     [\<lparr>file' = ''a.ts'', content = ''const a = 1;''\<rparr>,
      \<lparr>file' = ''b.ts'', content = ''export const a = 1;''\<rparr>,
      \<lparr>file' = ''c.js'', content = ''module.exports = 1;''\<rparr>] []) =
   \<lparr>unknowCount = 0, cjsCount = 1, esmCount = 1\<rparr> \<and>
   length (filter (markerFree createSourceFile_sample)
     [\<lparr>file' = ''a.ts'', content = ''const a = 1;''\<rparr>,
      \<lparr>file' = ''b.ts'', content = ''export const a = 1;''\<rparr>,
      \<lparr>file' = ''c.js'', content = ''module.exports = 1;''\<rparr>]) = 1"
proof -
  have run: "fst (checkModuleFormat_counters createSourceFile_sample
     [\<lparr>file' = ''a.ts'', content = ''const a = 1;''\<rparr>,
      \<lparr>file' = ''b.ts'', content = ''export const a = 1;''\<rparr>,
      \<lparr>file' = ''c.js'', content = ''module.exports = 1;''\<rparr>] []) =
     \<lparr>unknowCount = 0, cjsCount = 1, esmCount = 1\<rparr>"
    by (simp add: checkModuleFormat_counters_def checkModuleFormat_iter_def traverse_def
          sample_defs visit_def is_kind_defs Counters_init_def)
  show ?thesis
    using counters_partition_batch [of createSourceFile_sample
        "[\<lparr>file' = ''a.ts'', content = ''const a = 1;''\<rparr>,
          \<lparr>file' = ''b.ts'', content = ''export const a = 1;''\<rparr>,
          \<lparr>file' = ''c.js'', content = ''module.exports = 1;''\<rparr>]" "[]"]
    by (simp add: run)
qed

text \<open>
  C4, as stated, fails: a syntactically invalid text does not reach the \<^verbatim>\<open>catch\<close>.
  In the batch of \<^verbatim>\<open>export const a = 1;\<close>, \<^verbatim>\<open>const = ;\<close> and
  \<^verbatim>\<open>module.exports = 1;\<close> the parser returns a tree for the second file, which is
  then classified like any other (it sets no marker), and \<open>unknowCount\<close> is what it is
  for the batch without that file, not one more.
\<close>

theorem malformed_text_not_unknown_counterexample:
  "\<not> (unknowCount (fst (checkModuleFormat_counters createSourceFile_sample
               [\<lparr>file' = ''a.ts'', content = ''export const a = 1;''\<rparr>,
                \<lparr>file' = ''b.ts'', content = ''const = ;''\<rparr>,
                \<lparr>file' = ''c.js'', content = ''module.exports = 1;''\<rparr>] [])) =
       unknowCount (fst (checkModuleFormat_counters createSourceFile_sample
               [\<lparr>file' = ''a.ts'', content = ''export const a = 1;''\<rparr>,
                \<lparr>file' = ''c.js'', content = ''module.exports = 1;''\<rparr>] [])) + 1)"
  by (simp add: checkModuleFormat_counters_def checkModuleFormat_iter_def traverse_def
        sample_defs visit_def is_kind_defs Counters_init_def)

text \<open>
  C4, amended. What the \<^verbatim>\<open>catch\<close> isolates is an exception: when the \<^verbatim>\<open>try\<close> block
  of one file of a batch throws (in the parser or in the traversal), the loop still runs
  over every file; the counters are those of the batch without that file, with
  \<open>unknowCount\<close> one higher, in the loop and in what the lenient variant returns; the
  error is printed with the path of the file.
\<close>

theorem thrown_file_isolated:
  assumes "traverse createSourceFile bad = Inl err"
  shows "fst (checkModuleFormat_counters createSourceFile (xs @ bad # ys) out) =
           (fst (checkModuleFormat_counters createSourceFile (xs @ ys) out))
             \<lparr>unknowCount :=
                unknowCount (fst (checkModuleFormat_counters createSourceFile (xs @ ys) out)) + 1\<rparr> \<and>
         fst (checkModuleFormat createSourceFile (xs @ bad # ys) out) =
           \<lparr>unknowCount = unknowCount (fst (checkModuleFormat createSourceFile (xs @ ys) out)) + 1,
            cjsCount = cjsCount (fst (checkModuleFormat createSourceFile (xs @ ys) out))\<rparr> \<and>
         ConsoleError (''Error checking module format for '' @ file' bad @ '' : \<newline> '' @
                       toString err)
           \<in> set (snd (checkModuleFormat_counters createSourceFile (xs @ bad # ys) out))"
proof -
  note tr = assms
  have flags: "threw createSourceFile bad" "\<not> countedCJS createSourceFile bad"
    "\<not> countedESM createSourceFile bad"
    by (simp_all add: tr threw_def countedCJS_def countedESM_def)
  have counters: "fst (checkModuleFormat_counters createSourceFile (xs @ bad # ys) out) =
      (fst (checkModuleFormat_counters createSourceFile (xs @ ys) out))
        \<lparr>unknowCount :=
           unknowCount (fst (checkModuleFormat_counters createSourceFile (xs @ ys) out)) + 1\<rparr>"
    by (simp add: checkModuleFormat_counters_def loop_counters flags)
  have lenient: "fst (checkModuleFormat createSourceFile ds out) =
      \<lparr>unknowCount = unknowCount (fst (checkModuleFormat_counters createSourceFile ds out)),
       cjsCount = cjsCount (fst (checkModuleFormat_counters createSourceFile ds out))\<rparr>" for ds
    by (simp add: checkModuleFormat_def split: prod.splits)
  obtain c1 out1 where pre: "checkModuleFormat_loop createSourceFile xs (Counters_init, out) = (c1, out1)"
    by (cases "checkModuleFormat_loop createSourceFile xs (Counters_init, out)")
  let ?line = "ConsoleError (''Error checking module format for '' @ file' bad @ '' : \<newline> '' @
                       toString err)"
  have step: "checkModuleFormat_iter createSourceFile bad (c1, out1) =
      (c1\<lparr>unknowCount := unknowCount c1 + 1\<rparr>, out1 @ [?line])"
    by (simp add: checkModuleFormat_iter_def tr)
  have "?line \<in> set (out1 @ [?line])" by simp
  then have printed: "?line \<in> set (snd (checkModuleFormat_counters createSourceFile (xs @ bad # ys) out))"
    using loop_console_mono [of "out1 @ [?line]" createSourceFile ys "c1\<lparr>unknowCount := unknowCount c1 + 1\<rparr>"]
    by (auto simp: checkModuleFormat_counters_def loop_append pre step)
  show ?thesis
    using counters printed by (simp add: lenient)
qed

text \<open>
  An instance: the file \<^verbatim>\<open>b.ts\<close> holds the deeply nested text and the parser call
  for it throws \<^verbatim>\<open>RangeError\<close>; on the other files the parser is the sample parser.
\<close>

theorem thrown_file_isolated_witness:
  "fst (checkModuleFormat_counters
     (\<lambda>fileName sourceText.
        if fileName = ''b.ts''
        then Inl (Thrown True ''RangeError: Maximum call stack size exceeded'')
        else createSourceFile_sample fileName sourceText)
     [\<lparr>file' = ''a.ts'', content = ''export const a = 1;''\<rparr>,
      \<lparr>file' = ''b.ts'', content = deeply_nested_text\<rparr>,
      \<lparr>file' = ''c.js'', content = ''module.exports = 1;''\<rparr>] []) =
   \<lparr>unknowCount = 1, cjsCount = 1, esmCount = 1\<rparr>"
proof -
  let ?P = "\<lambda>fileName sourceText.
        if fileName = ''b.ts''
        then Inl (Thrown True ''RangeError: Maximum call stack size exceeded'')
        else createSourceFile_sample fileName sourceText"
  have bad: "traverse ?P \<lparr>file' = ''b.ts'', content = deeply_nested_text\<rparr> =
      Inl (Thrown True ''RangeError: Maximum call stack size exceeded'')"
    by (simp add: traverse_def)
  have rest: "fst (checkModuleFormat_counters ?P
     ([\<lparr>file' = ''a.ts'', content = ''export const a = 1;''\<rparr>] @
      [\<lparr>file' = ''c.js'', content = ''module.exports = 1;''\<rparr>]) []) =
     \<lparr>unknowCount = 0, cjsCount = 1, esmCount = 1\<rparr>"
    by (simp add: checkModuleFormat_counters_def checkModuleFormat_iter_def traverse_def
          sample_defs visit_def is_kind_defs Counters_init_def)
  show ?thesis
    using thrown_file_isolated [where createSourceFile = ?P
        and bad = "\<lparr>file' = ''b.ts'', content = deeply_nested_text\<rparr>"
        and err = "Thrown True ''RangeError: Maximum call stack size exceeded''"
        and xs = "[\<lparr>file' = ''a.ts'', content = ''export const a = 1;''\<rparr>]"
        and ys = "[\<lparr>file' = ''c.js'', content = ''module.exports = 1;''\<rparr>]"
        and out = "[]", OF bad] rest
    by simp
qed

section \<open>The extension classifier\<close>

text \<open>
  C5. The flags are what their definitions say, over the suffixes \<open>extname (file' d)\<close>
  of the batch, and the four sample batches get the flags stated for them, whatever the
  contents of the files.
\<close>

theorem checkExtGroup_flags:
  "(isCjs (checkExtGroup deps) \<longleftrightarrow>
      (\<forall>d\<in>set deps. extname (file' d) = ''.cjs'') \<or>
      (\<forall>d\<in>set deps. extname (file' d) = ''.cts'')) \<and>
   (isJs (checkExtGroup deps) \<longleftrightarrow> (\<forall>d\<in>set deps. extname (file' d) \<in> {''.js'', ''.mjs''})) \<and>
   (isTs (checkExtGroup deps) \<longleftrightarrow> (\<forall>d\<in>set deps. extname (file' d) \<in> {''.ts'', ''.mts''})) \<and>
   (isJsx (checkExtGroup deps) \<longleftrightarrow> (\<forall>d\<in>set deps. extname (file' d) \<in> {''.jsx'', ''.tsx''})) \<and>
   (isNone (checkExtGroup deps) \<longleftrightarrow>
      (\<exists>d\<in>set deps. extname (file' d) \<notin>
         {''.cjs'', ''.cts'', ''.js'', ''.mjs'', ''.ts'', ''.mts'', ''.jsx'', ''.tsx''})) \<and>
   (let g = checkExtGroup [\<lparr>file' = ''a.ts'', content = c1\<rparr>, \<lparr>file' = ''b.ts'', content = c2\<rparr>]
    in isTs g \<and> \<not> isJs g \<and> \<not> isBoth g \<and> \<not> isNone g) \<and>
   (let g = checkExtGroup [\<lparr>file' = ''a.js'', content = c1\<rparr>, \<lparr>file' = ''b.ts'', content = c2\<rparr>]
    in \<not> isJs g \<and> \<not> isTs g \<and> \<not> isBoth g) \<and>
   isCjs (checkExtGroup [\<lparr>file' = ''a.cjs'', content = c1\<rparr>]) \<and>
   isNone (checkExtGroup [\<lparr>file' = ''a.txt'', content = c1\<rparr>])"
proof -
  have cjs: "isCjs (checkExtGroup deps) \<longleftrightarrow>
      (\<forall>d\<in>set deps. extname (file' d) = ''.cjs'') \<or>
      (\<forall>d\<in>set deps. extname (file' d) = ''.cts'')"
    by (simp add: checkExtGroup_def Let_def every_ext ext_tables)
  have js: "isJs (checkExtGroup deps) \<longleftrightarrow> (\<forall>d\<in>set deps. extname (file' d) \<in> {''.js'', ''.mjs''})"
    by (simp add: checkExtGroup_def Let_def every_ext ext_tables)
  have ts: "isTs (checkExtGroup deps) \<longleftrightarrow> (\<forall>d\<in>set deps. extname (file' d) \<in> {''.ts'', ''.mts''})"
    by (simp add: checkExtGroup_def Let_def every_ext ext_tables)
  have jsx: "isJsx (checkExtGroup deps) \<longleftrightarrow> (\<forall>d\<in>set deps. extname (file' d) \<in> {''.jsx'', ''.tsx''})"
    by (simp add: checkExtGroup_def Let_def every_ext ext_tables)
  have none: "isNone (checkExtGroup deps) \<longleftrightarrow>
      (\<exists>d\<in>set deps. extname (file' d) \<notin>
         {''.cjs'', ''.cts'', ''.js'', ''.mjs'', ''.ts'', ''.mts'', ''.jsx'', ''.tsx''})"
    by (simp add: checkExtGroup_def Let_def every_ext ext_tables) blast
  have e1: "let g = checkExtGroup [\<lparr>file' = ''a.ts'', content = c1\<rparr>, \<lparr>file' = ''b.ts'', content = c2\<rparr>]
    in isTs g \<and> \<not> isJs g \<and> \<not> isBoth g \<and> \<not> isNone g"
    by (simp add: checkExtGroup_def Let_def has_iff ext_tables extname_samples)
  have e2: "let g = checkExtGroup [\<lparr>file' = ''a.js'', content = c1\<rparr>, \<lparr>file' = ''b.ts'', content = c2\<rparr>]
    in \<not> isJs g \<and> \<not> isTs g \<and> \<not> isBoth g"
    by (simp add: checkExtGroup_def Let_def has_iff ext_tables extname_samples)
  have e3: "isCjs (checkExtGroup [\<lparr>file' = ''a.cjs'', content = c1\<rparr>])"
    by (simp add: checkExtGroup_def Let_def has_iff ext_tables extname_samples)
  have e4: "isNone (checkExtGroup [\<lparr>file' = ''a.txt'', content = c1\<rparr>])"
    by (simp add: checkExtGroup_def Let_def has_iff ext_tables extname_samples)
  from cjs js ts jsx none e1 e2 e3 e4 show ?thesis by blast
qed

theorem checkExtGroup_flags_witness:
  "isJs (checkExtGroup [\<lparr>file' = ''a.js'', content = []\<rparr>, \<lparr>file' = ''lib/b.mjs'', content = []\<rparr>]) \<and>
   \<not> isTs (checkExtGroup [\<lparr>file' = ''a.js'', content = []\<rparr>, \<lparr>file' = ''lib/b.mjs'', content = []\<rparr>]) \<and>
   \<not> isCjs (checkExtGroup [\<lparr>file' = ''a.js'', content = []\<rparr>, \<lparr>file' = ''lib/b.mjs'', content = []\<rparr>]) \<and>
   \<not> isNone (checkExtGroup [\<lparr>file' = ''a.js'', content = []\<rparr>, \<lparr>file' = ''lib/b.mjs'', content = []\<rparr>])"
proof -
  have ex: "extname ''a.js'' = ''.js''" "extname ''lib/b.mjs'' = ''.mjs''"
    by (simp_all add: extname_def extname_init_def)
  show ?thesis
    using checkExtGroup_flags [of "[\<lparr>file' = ''a.js'', content = []\<rparr>, \<lparr>file' = ''lib/b.mjs'', content = []\<rparr>]"]
    by (simp add: ex)
qed

text \<open>
  C6. \<open>isBoth\<close> is the conjunction of \<open>isJs\<close> and \<open>isTs\<close>, and it holds for the empty
  batch only.
\<close>

theorem isBoth_only_empty:
  "isBoth (checkExtGroup deps) = (isJs (checkExtGroup deps) \<and> isTs (checkExtGroup deps)) \<and>
   (isBoth (checkExtGroup deps) \<longleftrightarrow> deps = [])"
proof -
  have conj: "isBoth (checkExtGroup deps) = (isJs (checkExtGroup deps) \<and> isTs (checkExtGroup deps))"
    by (simp add: checkExtGroup_def Let_def)
  have empty: "isBoth (checkExtGroup deps) \<longleftrightarrow> deps = []"
  proof (cases deps)
    case Nil
    then show ?thesis by (simp add: checkExtGroup_def Let_def)
  next
    case (Cons d ds)
    then show ?thesis
      by (auto simp: checkExtGroup_def Let_def has_iff ext_tables)
  qed
  from conj empty show ?thesis by simp
qed

text \<open>
  C10. On the empty batch the lenient check returns \<open>isNone = False\<close> and every other
  flag \<open>True\<close>; the strict check, and with it \<^verbatim>\<open>fileExtensionAndFormat\<close>, ends
  the process with status 1 after the warning of the \<open>isCjs\<close> test, which comes before
  the \<open>isBoth\<close> test.
\<close>

theorem empty_batch_flags:
  "checkExtGroup [] =
     \<lparr>isNone = False, isJsx = True, isCjs = True, isBoth = True, isJs = True, isTs = True\<rparr> \<and>
   checkExtGroup_strict [] out =
     (Exit 1, out @ [ConsoleWarn
        ''The package detects commonjs extensions (.cjd or .cts) in the dependencies tree, which is currently unsupported.'']) \<and>
   fileExtensionAndFormat createSourceFile [] out =
     (Exit 1, out @ [ConsoleWarn
        ''The package detects commonjs extensions (.cjd or .cts) in the dependencies tree, which is currently unsupported.''])"
  by (simp add: checkExtGroup_def checkExtGroup_strict_def fileExtensionAndFormat_def Let_def)

section \<open>The strict policy and the lenient entry point\<close>

text \<open>
  C7. The strict extension check ends the process with status 1 exactly when one of
  \<open>isNone\<close>, \<open>isCjs\<close>, \<open>isBoth\<close> holds of the whole batch, after one warning, and
  returns \<^verbatim>\<open>true\<close> without printing otherwise. The strict module-format check ends
  the process with status 1 exactly when \<open>cjsCount\<close> or \<open>unknowCount\<close> of the loop
  over the whole batch is positive, its warning coming after everything the loop
  printed, and returns \<^verbatim>\<open>true\<close> otherwise.
\<close>

theorem strict_policy_exit:
  "(fst (checkExtGroup_strict deps out) = Exit 1 \<longleftrightarrow>
      isNone (checkExtGroup deps) \<or> isCjs (checkExtGroup deps) \<or> isBoth (checkExtGroup deps)) \<and>
   (isNone (checkExtGroup deps) \<or> isCjs (checkExtGroup deps) \<or> isBoth (checkExtGroup deps) \<longrightarrow>
      (\<exists>w. snd (checkExtGroup_strict deps out) = out @ [ConsoleWarn w])) \<and>
   (\<not> (isNone (checkExtGroup deps) \<or> isCjs (checkExtGroup deps) \<or> isBoth (checkExtGroup deps)) \<longrightarrow>
      checkExtGroup_strict deps out = (Return True, out)) \<and>
   (fst (checkModuleFormat_strict createSourceFile deps out) = Exit 1 \<longleftrightarrow>
      cjsCount (fst (checkModuleFormat_counters createSourceFile deps out)) > 0 \<or>
      unknowCount (fst (checkModuleFormat_counters createSourceFile deps out)) > 0) \<and>
   (cjsCount (fst (checkModuleFormat_counters createSourceFile deps out)) > 0 \<or>
    unknowCount (fst (checkModuleFormat_counters createSourceFile deps out)) > 0 \<longrightarrow>
      (\<exists>w. snd (checkModuleFormat_strict createSourceFile deps out) =
            snd (checkModuleFormat_counters createSourceFile deps out) @ [ConsoleWarn w])) \<and>
   (\<not> (cjsCount (fst (checkModuleFormat_counters createSourceFile deps out)) > 0 \<or>
       unknowCount (fst (checkModuleFormat_counters createSourceFile deps out)) > 0) \<longrightarrow>
      checkModuleFormat_strict createSourceFile deps out =
        (Return True, snd (checkModuleFormat_counters createSourceFile deps out)))"
proof -
  have ext: "checkExtGroup_strict deps out =
      (if isNone (checkExtGroup deps) then
         (Exit 1, out @ [ConsoleWarn
            ''Bundler detects none Javascript or Typescript extensions in the dependencies tree.''])
       else if isCjs (checkExtGroup deps) then
         (Exit 1, out @ [ConsoleWarn
            ''The package detects commonjs extensions (.cjd or .cts) in the dependencies tree, which is currently unsupported.''])
       else if isBoth (checkExtGroup deps) then
         (Exit 1, out @ [ConsoleWarn
            ''The package detects both Javascript or Typescript extensions in the dependencies tree, currently unsupported.''])
       else (Return True, out))"
    by (simp add: checkExtGroup_strict_def checkExtGroup_def Let_def)
  obtain c out' where run: "checkModuleFormat_counters createSourceFile deps out = (c, out')"
    by (cases "checkModuleFormat_counters createSourceFile deps out")
  have fmt: "checkModuleFormat_strict createSourceFile deps out =
      (if unknowCount c \<noteq> 0 then
         (Exit 1, out' @ [ConsoleWarn
            ''Unknown error when checking module types in the dependencies tree.''])
       else if cjsCount c \<noteq> 0 then
         (Exit 1, out' @ [ConsoleWarn
            ''The package detects CommonJs format  in the dependencies tree, currently unsupported.''])
       else (Return True, out'))"
    by (simp add: checkModuleFormat_strict_def run)
  show ?thesis
    unfolding ext fmt run by auto
qed

theorem strict_policy_exit_witness:
  "fst (checkExtGroup_strict [\<lparr>file' = ''a.cjs'', content = ''module.exports = 1;''\<rparr>] []) = Exit 1 \<and>
   fst (checkModuleFormat_strict createSourceFile_sample
          [\<lparr>file' = ''a.cjs'', content = ''module.exports = 1;''\<rparr>] []) = Exit 1"
proof -
  have flag: "isCjs (checkExtGroup [\<lparr>file' = ''a.cjs'', content = ''module.exports = 1;''\<rparr>])"
    by (simp add: checkExtGroup_def Let_def has_def ext_tables extname_samples)
  have cnt: "cjsCount (fst (checkModuleFormat_counters createSourceFile_sample
          [\<lparr>file' = ''a.cjs'', content = ''module.exports = 1;''\<rparr>] [])) = 1"
    by (simp add: checkModuleFormat_counters_def checkModuleFormat_iter_def traverse_def
          sample_defs visit_def is_kind_defs Counters_init_def)
  show ?thesis
    using strict_policy_exit [of "[\<lparr>file' = ''a.cjs'', content = ''module.exports = 1;''\<rparr>]" "[]"
        createSourceFile_sample] flag cnt
    by simp
qed

text \<open>
  C8. With \<^verbatim>\<open>noCheck\<close> set, the lenient \<^verbatim>\<open>check\<close> of the single file \<^verbatim>\<open>x.ts\<close>
  with text \<^verbatim>\<open>export const a = 1;\<close>, parsed to its tree, returns \<open>isTs = True\<close>, the
  five other flags \<open>False\<close> and both counters 0, and prints nothing. The record
  returned has these eight fields and no \<open>esmCount\<close>.
\<close>

theorem check_lenient_export_const:
  assumes "createSourceFile ''x.ts'' ''export const a = 1;'' = Inr tree_export_const"
  shows "check ts createSourceFile [\<lparr>file' = ''x.ts'', content = ''export const a = 1;''\<rparr>]
           \<lparr>noCheck = Some True\<rparr> out =
         (Return \<lparr>isNone = False, isJsx = False, isCjs = False, isBoth = False, isJs = False,
                  isTs = True, \<dots> = \<lparr>unknowCount = 0, cjsCount = 0\<rparr>\<rparr>, out)"
proof -
  have tr: "traverse createSourceFile \<lparr>file' = ''x.ts'', content = ''export const a = 1;''\<rparr> =
      Inr \<lparr>hasESMImports = True, hasCommonJS = False\<rparr>"
    by (simp add: traverse_def assms sample_defs visit_def is_kind_defs)
  have cm: "checkModuleFormat createSourceFile
      [\<lparr>file' = ''x.ts'', content = ''export const a = 1;''\<rparr>] out =
      (\<lparr>unknowCount = 0, cjsCount = 0\<rparr>, out)"
    by (simp add: checkModuleFormat_def checkModuleFormat_counters_def checkModuleFormat_iter_def
          tr Counters_init_def)
  have ce: "checkExtGroup [\<lparr>file' = ''x.ts'', content = ''export const a = 1;''\<rparr>] =
      \<lparr>isNone = False, isJsx = False, isCjs = False, isBoth = False, isJs = False, isTs = True\<rparr>"
    by (simp add: checkExtGroup_def Let_def has_def ext_tables extname_samples)
  show ?thesis
    by (simp add: check_def checkTypes_def check_classify_def cm ce ExtGroup.extend_def)
qed

theorem check_lenient_export_const_witness:
  "check \<lparr>createProgram = (\<lambda>paths opts. Inl (Thrown True ''Error: no compiler'')),
          formatDiagnostics = concat, relative = (\<lambda>p. p)\<rparr>
     createSourceFile_sample [\<lparr>file' = ''x.ts'', content = ''export const a = 1;''\<rparr>]
     \<lparr>noCheck = Some True\<rparr> [] =
   (Return \<lparr>isNone = False, isJsx = False, isCjs = False, isBoth = False, isJs = False,
            isTs = True, \<dots> = \<lparr>unknowCount = 0, cjsCount = 0\<rparr>\<rparr>, [])"
proof -
  have p: "createSourceFile_sample ''x.ts'' ''export const a = 1;'' = Inr tree_export_const"
    by (simp add: createSourceFile_sample_def)
  show ?thesis
    using check_lenient_export_const [where createSourceFile = createSourceFile_sample, OF p]
    by simp
qed

end
